theory Spec2Isabelle
  imports Complex_Main "HOL-Library.AList" "HOL-Library.Monad_Syntax"
begin

section \<open>kmlparse.py: extraction and simplification of KML polygons\<close>

text \<open>
  The script reads a KML file line by line, keeps the current polygon name and the points
  collected so far in two module-level variables, and on every line that is neither a name
  tag nor a coordinate pair hands the collected points to \<open>Simplified\<close> and \<open>KmlOut\<close>.

  Text is modelled as \<open>string\<close>, a character being a code point below 256. Python's
  \<open>float\<close> type is a type parameter \<open>'f\<close>: the two conversions the script uses
  (\<open>float(text)\<close> and \<open>str(value)\<close>) and the library function \<open>simplify_coords\<close> of the
  package \<open>simplification\<close> are not code of the script and are taken as parameters.
\<close>

subsection \<open>Exceptions\<close>

datatype error =
    ValueError          \<comment> \<open>\<open>float(text)\<close> on text that is not a number\<close>
  | IndexError          \<comment> \<open>\<open>outpoints[0]\<close> on an empty list\<close>
  | FileNotFoundError   \<comment> \<open>\<open>open(filename)\<close> on a missing input file\<close>
  | LibraryError string \<comment> \<open>anything raised inside \<open>simplify_coords\<close>\<close>

subsection \<open>Character classes of the regular expression\<close>

definition newline :: char where
  "newline = CHR 0x0A"

definition is_digit :: "char \<Rightarrow> bool" where
  \<comment> \<open>\<open>\d\<close>: the decimal digits.\<close>
  "is_digit c = (let n = (of_char c :: nat) in 48 \<le> n \<and> n \<le> 57)"

definition is_word :: "char \<Rightarrow> bool" where
  \<comment> \<open>\<open>\w\<close>: alphanumeric characters and the underscore.\<close>
  "is_word c = (let n = (of_char c :: nat) in
     (48 \<le> n \<and> n \<le> 57) \<or> (65 \<le> n \<and> n \<le> 90) \<or> n = 95 \<or> (97 \<le> n \<and> n \<le> 122) \<or>
     n = 170 \<or> n = 178 \<or> n = 179 \<or> n = 181 \<or> n = 185 \<or> n = 186 \<or>
     (188 \<le> n \<and> n \<le> 190) \<or> (192 \<le> n \<and> n \<le> 214) \<or> (216 \<le> n \<and> n \<le> 246) \<or>
     (248 \<le> n \<and> n \<le> 255))"

definition is_space :: "char \<Rightarrow> bool" where
  \<comment> \<open>\<open>\s\<close>: whitespace characters.\<close>
  "is_space c = (let n = (of_char c :: nat) in
     (9 \<le> n \<and> n \<le> 13) \<or> (28 \<le> n \<and> n \<le> 32) \<or> n = 133 \<or> n = 160)"

definition word_or_space :: "char \<Rightarrow> bool" where
  \<comment> \<open>The class \<open>[\w\s]\<close>.\<close>
  "word_or_space c = (is_word c \<or> is_space c)"

subsection \<open>The regular expression\<close>

text \<open>
  \<^verbatim>\<open>re.search('<name>([\w\s]*)</name>|(-\d{2}.\d{6})\d*,(\d{2}.\d{6})\d*', l)\<close>

  A match object carries the three groups; a group that did not take part in the match
  is \<open>None\<close>.
\<close>

datatype match = Match (group1: "string option") (group2: "string option") (group3: "string option")

fun lit :: "string \<Rightarrow> string \<Rightarrow> string option" where
  \<comment> \<open>A literal: the rest of the text after it, if the text starts with it.\<close>
  "lit [] s = Some s"
| "lit (p # ps) [] = None"
| "lit (p # ps) (c # cs) = (if p = c then lit ps cs else None)"

definition digits :: "nat \<Rightarrow> string \<Rightarrow> (string \<times> string) option" where
  \<comment> \<open>\<open>\d{n}\<close>: exactly \<open>n\<close> digits and the rest.\<close>
  "digits n s = (if n \<le> length s \<and> (\<forall>c \<in> set (take n s). is_digit c)
                 then Some (take n s, drop n s) else None)"

fun any_char :: "string \<Rightarrow> (char \<times> string) option" where
  \<comment> \<open>The unescaped \<open>.\<close>: any one character but a newline.\<close>
  "any_char [] = None"
| "any_char (c # cs) = (if c = newline then None else Some (c, cs))"

definition number :: "string \<Rightarrow> (string \<times> string) option" where
  \<comment> \<open>\<open>\d{2}.\d{6}\<close>: the text it matches, and the rest.\<close>
  "number s = do {
     (deg, r1) \<leftarrow> digits 2 s;
     (c, r2) \<leftarrow> any_char r1;
     (frac, r3) \<leftarrow> digits 6 r2;
     Some (deg @ [c] @ frac, r3)
   }"

definition match_name :: "string \<Rightarrow> match option" where
  \<comment> \<open>First alternative at the start of \<open>s\<close>. The star is greedy; a shorter repetition
      would have to be followed by \<open><\<close>, which the class excludes, so backtracking finds
      nothing more.\<close>
  "match_name s = do {
     r1 \<leftarrow> lit ''<name>'' s;
     _ \<leftarrow> lit ''</name>'' (dropWhile word_or_space r1);
     Some (Match (Some (takeWhile word_or_space r1)) None None)
   }"

definition match_coord :: "string \<Rightarrow> match option" where
  \<comment> \<open>Second alternative at the start of \<open>s\<close>. \<open>\d*\<close> takes every further digit; giving
      one back would put a digit where the comma must be.\<close>
  "match_coord s = do {
     r1 \<leftarrow> lit ''-'' s;
     (lon, r2) \<leftarrow> number r1;
     r3 \<leftarrow> lit '','' (dropWhile is_digit r2);
     (lat, r4) \<leftarrow> number r3;
     Some (Match None (Some (''-'' @ lon)) (Some lat))
   }"

definition match_at :: "string \<Rightarrow> match option" where
  \<comment> \<open>The alternation, left alternative first.\<close>
  "match_at s = (case match_name s of Some m \<Rightarrow> Some m | None \<Rightarrow> match_coord s)"

fun re_search :: "string \<Rightarrow> match option" where
  \<comment> \<open>\<open>re.search\<close>: the match at the leftmost position that has one.\<close>
  "re_search [] = match_at []"
| "re_search (c # cs) = (case match_at (c # cs) of Some m \<Rightarrow> Some m | None \<Rightarrow> re_search cs)"

declare re_search.simps [simp del]

subsection \<open>Python values and builtins\<close>

definition m_and :: "match option \<Rightarrow> (match \<Rightarrow> string option) \<Rightarrow> string option" where
  \<comment> \<open>\<open>m and m.group(i)\<close>.\<close>
  "m_and m g = (case m of None \<Rightarrow> None | Some mm \<Rightarrow> g mm)"

definition truthy :: "string option \<Rightarrow> bool" where
  \<comment> \<open>\<open>None\<close> and the empty string are false.\<close>
  "truthy v = (case v of None \<Rightarrow> False | Some s \<Rightarrow> s \<noteq> [])"

definition text_of :: "string option \<Rightarrow> string" where
  "text_of v = (case v of None \<Rightarrow> [] | Some s \<Rightarrow> s)"

definition replace :: "string \<Rightarrow> char \<Rightarrow> char \<Rightarrow> string" where
  \<comment> \<open>\<open>s.replace(old, new)\<close> for one-character \<open>old\<close> and \<open>new\<close>.\<close>
  "replace s old new = map (\<lambda>c. if c = old then new else c) s"

fun join :: "string \<Rightarrow> string list \<Rightarrow> string" where
  \<comment> \<open>\<open>sep.join(xs)\<close>\<close>
  "join sep [] = []"
| "join sep [x] = x"
| "join sep (x # y # ys) = x @ sep @ join sep (y # ys)"

definition digit_char :: "nat \<Rightarrow> char" where
  "digit_char d = char_of (48 + d)"

fun str_nat :: "nat \<Rightarrow> string" where
  "str_nat n = (if n < 10 then [digit_char n] else str_nat (n div 10) @ [digit_char (n mod 10)])"

declare str_nat.simps [simp del]

definition str_int :: "int \<Rightarrow> string" where
  \<comment> \<open>\<open>str(i)\<close> for an integer.\<close>
  "str_int i = (if i < 0 then CHR ''-'' # str_nat (nat (- i)) else str_nat (nat i))"

record 'f py =
  float :: "string \<Rightarrow> 'f option"
    \<comment> \<open>\<open>float(text)\<close>; \<open>None\<close> where it raises ValueError\<close>
  str :: "'f \<Rightarrow> string"
    \<comment> \<open>\<open>str(x)\<close> for a float\<close>
  simplify_coords :: "'f list list \<Rightarrow> real \<Rightarrow> error + 'f list list"
    \<comment> \<open>\<open>simplification.cutil.simplify_coords(points, epsilon)\<close>\<close>

datatype 'f elem = Flt 'f | IntV int

fun str_elem :: "'f py \<Rightarrow> 'f elem \<Rightarrow> string" where
  "str_elem E (Flt x) = str E x"
| "str_elem E (IntV i) = str_int i"

subsection \<open>Simplified\<close>

definition lineWidth :: real where
  "lineWidth = 1 / 1000"

definition Simplified :: "'f py \<Rightarrow> 'f list list \<Rightarrow> error + string list" where
  "Simplified E inpoints =
     (case simplify_coords E inpoints lineWidth of
        Inl e \<Rightarrow> Inl e
      | Inr simplified \<Rightarrow>
          (let outpoints = map (\<lambda>x. map (str_elem E) (map Flt x @ [IntV 0])) simplified in
           case outpoints of
             [] \<Rightarrow> Inl IndexError
           | first # _ \<Rightarrow> Inr (map (join '','') (outpoints @ [first]))))"

subsection \<open>KmlOut\<close>

text \<open>
  The file system the script writes to is an association list from path to content
  (\<open>open(path, 'w')\<close> creates the file or replaces its content); the console is the list of
  printed lines. Failures of the operating system while writing are not modelled.
\<close>

record world =
  files :: "(string \<times> string) list"
  console :: "string list"

definition kmlopen :: "string \<Rightarrow> string" where
  \<open>kmlopen name =
     ''<?xml version="1.0" encoding="UTF-8"?>'' @ [newline] @
     ''<kml xmlns="http://www.opengis.net/kml/2.2">'' @ [newline] @
     ''<Style id="'' @ name @ ''Style"> '' @ [newline] @
     ''<LineStyle> '' @ [newline] @
     ''<width>1</width> '' @ [newline] @
     ''</LineStyle> '' @ [newline] @
     ''<PolyStyle> '' @ [newline] @
     ''<color>8033CAC0</color> '' @ [newline] @
     ''</PolyStyle> '' @ [newline] @
     ''</Style> '' @ [newline] @
     ''<Placemark> '' @ [newline] @
     ''<name>'' @ name @ ''</name> '' @ [newline] @
     ''<styleUrl>#'' @ name @ ''Style</styleUrl> '' @ [newline] @
     ''<Polygon> '' @ [newline] @
     ''<outerBoundaryIs> '' @ [newline] @
     ''<LinearRing>'' @ [newline] @
     ''<coordinates>'' @ [newline]\<close>

definition kmlclose :: string where
  "kmlclose =
     ''</coordinates> '' @ [newline] @
     ''</LinearRing> '' @ [newline] @
     ''</outerBoundaryIs> '' @ [newline] @
     ''</Polygon> '' @ [newline] @
     ''</Placemark> '' @ [newline] @
     ''</kml>''"

definition KmlOut :: "string \<Rightarrow> string list \<Rightarrow> world \<Rightarrow> world" where
  "KmlOut name points w =
     w\<lparr>files := AList.update (name @ ''_points.kml'')
                  (kmlopen name @ concat (map (\<lambda>i. i @ [newline]) points) @ kmlclose) (files w),
       console := console w @
                  [''wrote file for '' @ name @ '' -- length: '' @ str_nat (length points)]\<rparr>"

subsection \<open>The main script\<close>

record 'f vars =
  name :: string
  points :: "'f list list"

definition step :: "'f py \<Rightarrow> 'f vars \<times> world \<Rightarrow> string \<Rightarrow> error + 'f vars \<times> world" where
  \<comment> \<open>The body of \<open>for l in f\<close>.\<close>
  "step E vw l =
     (let v = fst vw; w = snd vw; m = re_search l in
      if truthy (m_and m group1) then
        Inr (v\<lparr>name := replace (text_of (m_and m group1)) CHR '' '' CHR ''_''\<rparr>, w)
      else if truthy (m_and m group2) \<and> truthy (m_and m group3) then
        (case float E (text_of (m_and m group2)) of
           None \<Rightarrow> Inl ValueError
         | Some lon \<Rightarrow>
             (case float E (text_of (m_and m group3)) of
                None \<Rightarrow> Inl ValueError
              | Some lat \<Rightarrow> Inr (v\<lparr>points := points v @ [[lon, lat]]\<rparr>, w)))
      else if length (points v) \<noteq> 0 then
        (case Simplified E (points v) of
           Inl e \<Rightarrow> Inl e
         | Inr outpoints \<Rightarrow> Inr (v\<lparr>points := []\<rparr>, KmlOut (name v) outpoints w))
      else Inr (v, w))"

fun run :: "'f py \<Rightarrow> 'f vars \<times> world \<Rightarrow> string list \<Rightarrow> error + 'f vars \<times> world" where
  \<comment> \<open>The loop over the lines of the file; an exception ends it.\<close>
  "run E vw [] = Inr vw"
| "run E vw (l # ls) = (case step E vw l of Inl e \<Rightarrow> Inl e | Inr vw' \<Rightarrow> run E vw' ls)"

definition main :: "'f py \<Rightarrow> string list option \<Rightarrow> world \<Rightarrow> error + 'f vars \<times> world" where
  \<comment> \<open>The script: \<open>source\<close> is the lines of \<open>County_Boundaries.kml\<close>, each with its line
      terminator, or \<open>None\<close> when the file cannot be opened. Nothing follows the loop.\<close>
  "main E source w =
     (case source of
        None \<Rightarrow> Inl FileNotFoundError
      | Some lines \<Rightarrow> run E (\<lparr>name = [], points = []\<rparr>, w) lines)"

subsection \<open>Notions used to state the properties\<close>

definition handoff :: "'f py \<Rightarrow> 'f vars \<Rightarrow> world \<Rightarrow> error + 'f vars \<times> world" where
  \<comment> \<open>The two statements of the last branch of the loop body:
      \<open>KmlOut(name, Simplified(points)); points = []\<close>.\<close>
  "handoff E v w =
     (case Simplified E (points v) of
        Inl e \<Rightarrow> Inl e
      | Inr outpoints \<Rightarrow> Inr (v\<lparr>points := []\<rparr>, KmlOut (name v) outpoints w))"

definition is_name_record :: "string \<Rightarrow> bool" where
  \<comment> \<open>The condition of the \<open>if\<close>.\<close>
  "is_name_record l = truthy (m_and (re_search l) group1)"

definition is_coord_record :: "string \<Rightarrow> bool" where
  \<comment> \<open>The condition under which the \<open>elif\<close> for coordinates is taken.\<close>
  "is_coord_record l =
     (\<not> is_name_record l \<and> truthy (m_and (re_search l) group2) \<and> truthy (m_and (re_search l) group3))"

definition is_separator :: "string \<Rightarrow> bool" where
  \<comment> \<open>Neither of the two: the line reaches \<open>elif len(points)\<close>.\<close>
  "is_separator l = (\<not> is_name_record l \<and> \<not> is_coord_record l)"

definition render :: "'f py \<Rightarrow> 'f list \<Rightarrow> string" where
  \<comment> \<open>What \<open>Simplified\<close> makes of one point of the library's result: \<open>lon,lat,0\<close>.\<close>
  "render E x = join '','' (map (str_elem E) (map Flt x @ [IntV 0]))"

definition returns_points :: "'f py \<Rightarrow> bool" where
  \<comment> \<open>The part of the library's contract that the script relies on: given at least one
      point, \<open>simplify_coords\<close> returns, and returns at least one point (the
      Ramer-Douglas-Peucker algorithm keeps the end points of its input).\<close>
  "returns_points E =
     (\<forall>p. p \<noteq> [] \<longrightarrow> (\<exists>out. simplify_coords E p lineWidth = Inr out \<and> out \<noteq> []))"

subsubsection \<open>The specification's reading of names and coordinate lines\<close>

function join_whitespace_runs :: "string \<Rightarrow> string" where
  \<comment> \<open>Every maximal run of whitespace replaced by one underscore.\<close>
  "join_whitespace_runs [] = []"
| "join_whitespace_runs (c # cs) =
     (if is_space c then CHR ''_'' # join_whitespace_runs (dropWhile is_space cs)
      else c # join_whitespace_runs cs)"
  by pat_completeness auto
termination
  by (relation "measure length") (auto simp: length_dropWhile_le less_Suc_eq_le)




subsubsection \<open>An instance of the parameters\<close>

definition decimal_text :: "string \<Rightarrow> bool" where
  \<comment> \<open>An optional minus sign, digits, and optionally a point and more digits.\<close>
  "decimal_text s =
     (let t = (case s of [] \<Rightarrow> [] | c # r \<Rightarrow> if c = CHR ''-'' then r else s);
          ip = takeWhile is_digit t; rest = dropWhile is_digit t
      in case rest of
           [] \<Rightarrow> ip \<noteq> []
         | c # fr \<Rightarrow> c = CHR ''.'' \<and> list_all is_digit fr \<and> (ip \<noteq> [] \<or> fr \<noteq> []))"

definition sample_py :: "string py" where
  \<comment> \<open>For running the model on concrete lines: a float is represented by the decimal
      text that denotes it, and the library keeps every point.\<close>
  "sample_py =
     \<lparr>float = (\<lambda>s. if decimal_text s then Some s else None),
      str = (\<lambda>x. x),
      simplify_coords = (\<lambda>p epsilon. Inr p)\<rparr>"

definition empty_world :: world where
  "empty_world = \<lparr>files = [], console = []\<rparr>"

section \<open>Simplified\<close>

lemma Simplified_Cons:
  "simplify_coords E p lineWidth = Inr (x # xs) \<Longrightarrow>
   Simplified E p = Inr (map (render E) (x # xs) @ [render E x])"
  by (simp add: Simplified_def render_def)

lemma Simplified_Nil:
  "simplify_coords E p lineWidth = Inr [] \<Longrightarrow> Simplified E p = Inl IndexError"
  by (simp add: Simplified_def)

lemma Simplified_raises:
  "simplify_coords E p lineWidth = Inl e \<Longrightarrow> Simplified E p = Inl e"
  by (simp add: Simplified_def)

lemma str_int_zero: "str_int 0 = ''0''"
  by code_simp

lemma sample_float [simp]:
  "float sample_py = (\<lambda>s. if decimal_text s then Some s else None)"
  by (simp add: sample_py_def)

lemma sample_str [simp]: "str sample_py = (\<lambda>x. x)"
  by (simp add: sample_py_def)

lemma sample_simplify [simp]: "simplify_coords sample_py = (\<lambda>p epsilon. Inr p)"
  by (simp add: sample_py_def)

lemma render_sample: "render sample_py [a, b] = a @ '','' @ b @ '',0''"
  by (simp add: render_def str_int_zero)

lemma sample_returns_points: "returns_points sample_py"
  by (simp add: returns_points_def)

text \<open>
  C2. Closure: when the library honours its contract, \<open>Simplified\<close> returns for every
  non-empty point sequence, and the first and the last string of its result are equal. The
  result is the rendering of the library's result followed by a copy of its first element,
  which is appended whatever that result ends with.
\<close>

theorem Simplified_closed:
  assumes "returns_points E" and "inpoints \<noteq> []"
  shows "\<exists>simplified out.
           simplify_coords E inpoints lineWidth = Inr simplified \<and>
           Simplified E inpoints = Inr out \<and>
           out = map (render E) simplified @ [render E (hd simplified)] \<and>
           hd out = last out"
proof -
  from assms obtain simplified where
    s: "simplify_coords E inpoints lineWidth = Inr simplified" and ne: "simplified \<noteq> []"
    unfolding returns_points_def by blast
  from ne obtain x xs where c: "simplified = x # xs" by (cases simplified) auto
  from s c have "Simplified E inpoints = Inr (map (render E) (x # xs) @ [render E x])"
    by (simp add: Simplified_Cons)
  with s c show ?thesis by simp
qed

theorem Simplified_closed_witness:
  "Simplified sample_py [[''-97.123456'', ''29.123456''], [''-97.223456'', ''29.223456'']] =
     Inr [''-97.123456,29.123456,0'', ''-97.223456,29.223456,0'', ''-97.123456,29.123456,0'']"
  using Simplified_closed [OF sample_returns_points,
      of "[[''-97.123456'', ''29.123456''], [''-97.223456'', ''29.223456'']]"]
  by (simp add: Simplified_Cons render_sample)

text \<open>
  C5. Non-degeneracy: under the same contract, the result for a non-empty point sequence
  has at least two elements, one more than the library returned.
\<close>

theorem Simplified_length:
  assumes "returns_points E" and "1 \<le> length inpoints"
  shows "\<exists>simplified out.
           simplify_coords E inpoints lineWidth = Inr simplified \<and>
           Simplified E inpoints = Inr out \<and>
           length out = length simplified + 1 \<and> 2 \<le> length out"
proof -
  from assms(2) have "inpoints \<noteq> []" by auto
  with assms(1) obtain simplified where
    s: "simplify_coords E inpoints lineWidth = Inr simplified" and ne: "simplified \<noteq> []"
    unfolding returns_points_def by blast
  from ne obtain x xs where c: "simplified = x # xs" by (cases simplified) auto
  from s c have "Simplified E inpoints = Inr (map (render E) (x # xs) @ [render E x])"
    by (simp add: Simplified_Cons)
  with s c show ?thesis by simp
qed

theorem Simplified_length_witness:
  "Simplified sample_py [[''-98.000000'', ''30.000000'']] =
     Inr [''-98.000000,30.000000,0'', ''-98.000000,30.000000,0'']"
  using Simplified_length [OF sample_returns_points, of "[[''-98.000000'', ''30.000000'']]"]
  by (simp add: Simplified_Cons render_sample)

text \<open>
  C6. With no points \<open>Simplified\<close> does not return a value. The library, given nothing,
  has nothing to return (or raises itself); when it returns the empty list, the read of
  \<open>outpoints[0]\<close> raises IndexError, which is the failure the specification calls
  InvalidInput.
\<close>

theorem Simplified_empty_fails:
  assumes "\<And>out. simplify_coords E [] lineWidth = Inr out \<Longrightarrow> out = []"
  shows "(\<exists>e. Simplified E [] = Inl e) \<and>
         (simplify_coords E [] lineWidth = Inr [] \<longrightarrow> Simplified E [] = Inl IndexError)"
proof (cases "simplify_coords E [] lineWidth")
  case (Inl e)
  then show ?thesis by (simp add: Simplified_raises)
next
  case (Inr out)
  with assms have "simplify_coords E [] lineWidth = Inr []" by simp
  then show ?thesis by (simp add: Simplified_Nil)
qed

theorem Simplified_empty_fails_witness:
  "Simplified sample_py [] = Inl IndexError"
  using Simplified_empty_fails [of sample_py]
  by simp

section \<open>What the regular expression finds\<close>

lemma not_digit_chars:
  "\<not> is_digit CHR ''-''" "\<not> is_digit CHR ''<''" "\<not> is_digit CHR '',''"
  "\<not> is_digit CHR ''.''" "\<not> is_digit newline"
  by (simp_all add: is_digit_def newline_def)

lemma not_class_lt: "\<not> word_or_space CHR ''<''"
  by (simp add: word_or_space_def is_word_def is_space_def)

lemma match_at_other:
  "c \<noteq> CHR ''<'' \<Longrightarrow> c \<noteq> CHR ''-'' \<Longrightarrow> match_at (c # cs) = None"
  by (simp add: match_at_def match_name_def match_coord_def)

lemma match_at_Nil: "match_at [] = None"
  by (simp add: match_at_def match_name_def match_coord_def)

lemma re_search_skip:
  "CHR ''<'' \<notin> set pre \<Longrightarrow> CHR ''-'' \<notin> set pre \<Longrightarrow> re_search (pre @ s) = re_search s"
  by (induction pre) (auto simp: match_at_other re_search.simps)

lemma re_search_none:
  "CHR ''<'' \<notin> set s \<Longrightarrow> CHR ''-'' \<notin> set s \<Longrightarrow> re_search s = None"
  using re_search_skip [of s "[]"] by (simp add: match_at_Nil re_search.simps)

lemma re_search_hit: "match_at s = Some m \<Longrightarrow> re_search s = Some m"
  by (cases s) (auto simp: re_search.simps)

lemma re_search_found:
  "CHR ''<'' \<notin> set pre \<Longrightarrow> CHR ''-'' \<notin> set pre \<Longrightarrow> match_at s = Some m \<Longrightarrow>
   re_search (pre @ s) = Some m"
  by (simp add: re_search_skip re_search_hit)

lemma match_name_tag:
  assumes "list_all word_or_space cap"
  shows "match_name (''<name>'' @ cap @ ''</name>'' @ suf) = Some (Match (Some cap) None None)"
proof -
  have t: "takeWhile word_or_space (cap @ ''</name>'' @ suf) = cap"
    using assms by (simp add: takeWhile_append2 list_all_iff not_class_lt)
  have d: "dropWhile word_or_space (cap @ ''</name>'' @ suf) = ''</name>'' @ suf"
    using assms by (simp add: dropWhile_append2 list_all_iff not_class_lt)
  show ?thesis
    using t d by (simp add: match_name_def)
qed

lemma digits_exact:
  "list_all is_digit ds \<Longrightarrow> length ds = n \<Longrightarrow> digits n (ds @ r) = Some (ds, r)"
  by (simp add: digits_def list_all_iff)

lemma number_text:
  assumes "is_digit a" "is_digit b" "c \<noteq> newline" "list_all is_digit f" "length f = 6"
  shows "number (a # b # c # f @ r) = Some (a # b # c # f, r)"
proof -
  have "digits 2 ([a, b] @ c # f @ r) = Some ([a, b], c # f @ r)"
    using assms by (intro digits_exact) simp_all
  moreover have "digits 6 (f @ r) = Some (f, r)"
    using assms by (intro digits_exact) simp_all
  ultimately show ?thesis using assms by (simp add: number_def)
qed


lemma match_name_minus: "match_name (CHR ''-'' # s) = None"
  by (simp add: match_name_def)

lemma digits_short:
  assumes "list_all is_digit ds" "length ds < n" "r = [] \<or> \<not> is_digit (hd r)"
  shows "digits n (ds @ r) = None"
proof (cases "n \<le> length (ds @ r)")
  case False
  then show ?thesis by (simp add: digits_def)
next
  case True
  with assms(2) have ne: "r \<noteq> []" by auto
  with assms(3) have nd: "\<not> is_digit (hd r)" by simp
  from ne assms(2) have "(ds @ r) ! length ds = hd r"
    by (simp add: nth_append hd_conv_nth)
  moreover from True assms(2) have "(ds @ r) ! length ds \<in> set (take n (ds @ r))"
    by (metis in_set_conv_nth length_take min.absorb2 nth_take)
  ultimately have "hd r \<in> set (take n (ds @ r))" by simp
  with nd show ?thesis by (auto simp: digits_def)
qed

lemma digits_no_start:
  "list_all is_digit ds \<Longrightarrow> CHR ''<'' \<notin> set ds \<and> CHR ''-'' \<notin> set ds"
  by (auto simp: list_all_iff not_digit_chars)

lemma number_short:
  assumes "list_all is_digit f" "length f < 6" "r = [] \<or> \<not> is_digit (hd r)"
  shows "number (a # b # c # f @ r) = None"
proof -
  have "digits 6 (f @ r) = None" using assms by (rule digits_short)
  then show ?thesis
    by (auto simp: number_def digits_def split: if_splits Option.bind_splits)
qed

lemma number_long:
  assumes "is_digit a" "is_digit b" "c \<noteq> newline" "list_all is_digit f" "6 \<le> length f"
  shows "number (a # b # c # f @ r) = Some (a # b # c # take 6 f, drop 6 f @ r)"
proof -
  have "number (a # b # c # take 6 f @ (drop 6 f @ r)) = Some (a # b # c # take 6 f, drop 6 f @ r)"
  proof (rule number_text)
    show "list_all is_digit (take 6 f)" using assms(4) by (auto simp: list_all_iff dest: in_set_takeD)
    show "length (take 6 f) = 6" using assms(5) by simp
  qed (use assms in simp_all)
  then show ?thesis by (simp only: append_assoc [symmetric] append_take_drop_id)
qed

lemma match_coord_short:
  assumes da: "is_digit a" "is_digit b" and f1: "list_all is_digit f1"
    and dc: "is_digit c" "is_digit d" and f2: "list_all is_digit f2"
    and short: "length f1 < 6 \<or> length f2 < 6"
    and rest: "rest = [] \<or> \<not> is_digit (hd rest)"
  shows "match_coord (CHR ''-'' # a # b # CHR ''.'' # f1 @ CHR '','' # c # d # CHR ''.'' # f2 @ rest) = None"
proof (cases "length f1 < 6")
  case True
  have "number (a # b # CHR ''.'' # f1 @ (CHR '','' # c # d # CHR ''.'' # f2 @ rest)) = None"
    using f1 True by (intro number_short) (simp_all add: not_digit_chars)
  then show ?thesis by (simp add: match_coord_def)
next
  case False
  with short have s2: "length f2 < 6" and l1: "6 \<le> length f1" by auto
  let ?r = "CHR '','' # c # d # CHR ''.'' # f2 @ rest"
  have n1: "number (a # b # CHR ''.'' # f1 @ ?r) = Some (a # b # CHR ''.'' # take 6 f1, drop 6 f1 @ ?r)"
    using da f1 l1 by (intro number_long) (simp_all add: newline_def)
  have "\<And>x. x \<in> set (drop 6 f1) \<Longrightarrow> is_digit x"
    using f1 by (auto simp: list_all_iff dest: in_set_dropD)
  then have dw: "dropWhile is_digit (drop 6 f1 @ ?r) = ?r"
    by (simp add: dropWhile_append2 not_digit_chars)
  have n2: "number (c # d # CHR ''.'' # f2 @ rest) = None"
    using f2 s2 rest by (rule number_short)
  show ?thesis using n1 dw n2 by (simp add: match_coord_def)
qed

lemma re_search_short:
  assumes pre: "CHR ''<'' \<notin> set pre" "CHR ''-'' \<notin> set pre"
    and da: "is_digit a" "is_digit b" and f1: "list_all is_digit f1"
    and dc: "is_digit c" "is_digit d" and f2: "list_all is_digit f2"
    and short: "length f1 < 6 \<or> length f2 < 6"
    and rest: "rest = [] \<or> \<not> is_digit (hd rest)"
    and clean: "CHR ''<'' \<notin> set rest" "CHR ''-'' \<notin> set rest"
  shows "re_search (pre @ CHR ''-'' # a # b # CHR ''.'' # f1 @ CHR '','' # c # d # CHR ''.'' # f2 @ rest) = None"
proof -
  let ?t = "a # b # CHR ''.'' # f1 @ CHR '','' # c # d # CHR ''.'' # f2 @ rest"
  have m: "match_at (CHR ''-'' # ?t) = None"
    using match_coord_short [OF da f1 dc f2 short rest]
    by (simp add: match_at_def match_name_minus)
  have "CHR ''<'' \<notin> set ?t" "CHR ''-'' \<notin> set ?t"
    using da dc clean digits_no_start [OF f1] digits_no_start [OF f2]
    by (auto simp: not_digit_chars)
  then have "re_search ?t = None" by (rule re_search_none)
  with m have "re_search (CHR ''-'' # ?t) = None" by (simp add: re_search.simps)
  with pre show ?thesis by (simp add: re_search_skip)
qed

section \<open>The loop body: its three branches\<close>

lemma step_name:
  "is_name_record l \<Longrightarrow>
   step E (v, w) l = Inr (v\<lparr>name := replace (text_of (m_and (re_search l) group1)) CHR '' '' CHR ''_''\<rparr>, w)"
  by (simp add: step_def is_name_record_def Let_def)


lemma step_coord_raises:
  "is_coord_record l \<Longrightarrow>
   float E (text_of (m_and (re_search l) group2)) = None \<or>
   float E (text_of (m_and (re_search l) group3)) = None \<Longrightarrow>
   step E (v, w) l = Inl ValueError"
  by (auto simp: step_def is_coord_record_def is_name_record_def Let_def split: option.splits)

lemma step_separator:
  "is_separator l \<Longrightarrow>
   step E (v, w) l = (if points v = [] then Inr (v, w) else handoff E v w)"
  by (auto simp: step_def is_separator_def is_coord_record_def is_name_record_def Let_def handoff_def)

lemma no_match_separator: "re_search l = None \<Longrightarrow> is_separator l"
  by (simp add: is_separator_def is_coord_record_def is_name_record_def m_and_def truthy_def)

section \<open>Name records, coordinate records and separators\<close>

lemma match_at_shape:
  assumes "match_at s = Some m"
  shows "(\<exists>cap. m = Match (Some cap) None None) \<or>
         (\<exists>g2 g3. m = Match None (Some g2) (Some g3) \<and> g2 \<noteq> [] \<and> g3 \<noteq> [])"
proof (cases "match_name s")
  case (Some m')
  with assms have "m' = m" by (simp add: match_at_def)
  with Some show ?thesis
    by (auto simp: match_name_def split: Option.bind_splits)
next
  case None
  with assms have c: "match_coord s = Some m" by (simp add: match_at_def)
  then obtain lon lat r r' where m: "m = Match None (Some (''-'' @ lon)) (Some lat)"
    and n: "number r = Some (lat, r')"
    by (fastforce simp: match_coord_def split: Option.bind_splits)
  from n have "lat \<noteq> []"
    by (auto simp: number_def split: Option.bind_splits)
  with m show ?thesis by simp
qed

lemma re_search_shape:
  "re_search l = Some m \<Longrightarrow>
   (\<exists>cap. m = Match (Some cap) None None) \<or>
   (\<exists>g2 g3. m = Match None (Some g2) (Some g3) \<and> g2 \<noteq> [] \<and> g3 \<noteq> [])"
proof (induction l)
  case Nil
  then show ?case by (simp add: match_at_Nil re_search.simps)
next
  case (Cons c cs)
  show ?case
  proof (cases "match_at (c # cs)")
    case None
    with Cons show ?thesis by (simp add: re_search.simps)
  next
    case (Some m')
    with Cons.prems have "m' = m" by (simp add: re_search.simps)
    with Some show ?thesis by (simp add: match_at_shape)
  qed
qed

lemma name_record_iff:
  "is_name_record l \<longleftrightarrow> (\<exists>cap. cap \<noteq> [] \<and> re_search l = Some (Match (Some cap) None None))"
proof (cases "re_search l")
  case None
  then show ?thesis by (simp add: is_name_record_def m_and_def truthy_def)
next
  case (Some m)
  from re_search_shape [OF Some] Some show ?thesis
    by (auto simp: is_name_record_def m_and_def truthy_def)
qed

lemma coord_record_iff:
  "is_coord_record l \<longleftrightarrow> (\<exists>g2 g3. re_search l = Some (Match None (Some g2) (Some g3)))"
proof (cases "re_search l")
  case None
  then show ?thesis by (simp add: is_coord_record_def is_name_record_def m_and_def truthy_def)
next
  case (Some m)
  from re_search_shape [OF Some] Some show ?thesis
    by (auto simp: is_coord_record_def is_name_record_def m_and_def truthy_def)
qed

lemma separator_iff:
  "is_separator l \<longleftrightarrow> re_search l = None \<or> re_search l = Some (Match (Some []) None None)"
proof (cases "re_search l")
  case None
  then show ?thesis by (simp add: no_match_separator)
next
  case (Some m)
  from re_search_shape [OF Some] Some show ?thesis
    by (auto simp: is_separator_def name_record_iff coord_record_iff)
qed

lemma handoff_name: "handoff E v w = Inr (v', w') \<Longrightarrow> name v' = name v \<and> points v' = []"
  by (auto simp: handoff_def split: sum.splits)

lemma handoff_world: "handoff E v w = Inr (v', w') \<Longrightarrow> w' \<noteq> w"
proof
  assume h: "handoff E v w = Inr (v', w')" and e: "w' = w"
  from h obtain out where "w' = KmlOut (name v) out w"
    by (auto simp: handoff_def split: sum.splits)
  then have "length (console w') = Suc (length (console w))"
    by (simp add: KmlOut_def)
  with e show False by simp
qed


lemma decimal_text_samples:
  "decimal_text ''-97.767836''" "decimal_text ''29.434589''" "\<not> decimal_text ''-97x767836''"
  by code_simp+

lemma tag_samples:
  "re_search (''<name>Bell County</name>'' @ [newline]) = Some (Match (Some ''Bell County'') None None)"
  "re_search ''<name>B</name>'' = Some (Match (Some ''B'') None None)"
  "re_search (''<name></name>'' @ [newline]) = Some (Match (Some []) None None)"
  by code_simp+

lemma name_tag_line:
  assumes "CHR ''<'' \<notin> set pre" and "CHR ''-'' \<notin> set pre" and "list_all word_or_space cap"
  shows "re_search (pre @ ''<name>'' @ cap @ ''</name>'' @ suf) =
         Some (Match (Some cap) None None)"
proof -
  have "match_at (''<name>'' @ cap @ ''</name>'' @ suf) = Some (Match (Some cap) None None)"
    using assms(3) by (simp only: match_at_def match_name_tag option.case)
  with assms(1,2) show ?thesis by (rule re_search_found)
qed

lemma empty_tag_line:
  assumes "CHR ''<'' \<notin> set pre" and "CHR ''-'' \<notin> set pre"
  shows "re_search (pre @ ''<name></name>'' @ suf) = Some (Match (Some []) None None)"
  using name_tag_line [OF assms, of "[]" suf] by simp

subsection \<open>Coordinate records\<close>




lemma wildcard_line_raises:
  "step sample_py (v, w) ''-97x767836,29y434589'' = Inl ValueError"
proof -
  have r: "re_search ''-97x767836,29y434589'' =
        Some (Match None (Some ''-97x767836'') (Some ''29y434589''))"
    by code_simp
  then have "is_coord_record ''-97x767836,29y434589''" by (simp add: coord_record_iff)
  moreover have "text_of (m_and (re_search ''-97x767836,29y434589'') group2) = ''-97x767836''"
    unfolding r by (simp add: m_and_def text_of_def)
  ultimately show ?thesis
    by (intro step_coord_raises) (simp_all add: decimal_text_samples)
qed

text \<open>
  C4. A line that looks like a coordinate pair but has fewer than six fractional digits in
  its longitude or in its latitude (as \<open>-97.7678,29.4345\<close>) finds no match. It is not a
  coordinate record and raises nothing of its own: it is a separator, which hands off the
  pending points when there are some and does nothing otherwise.
\<close>

theorem short_fraction_is_separator:
  assumes "CHR ''<'' \<notin> set pre" "CHR ''-'' \<notin> set pre"
    and "is_digit a" "is_digit b" "list_all is_digit f1"
    and "is_digit c" "is_digit d" "list_all is_digit f2"
    and "length f1 < 6 \<or> length f2 < 6"
    and "rest = [] \<or> \<not> is_digit (hd rest)"
    and "CHR ''<'' \<notin> set rest" "CHR ''-'' \<notin> set rest"
    and "l = pre @ CHR ''-'' # a # b # CHR ''.'' # f1 @ CHR '','' # c # d # CHR ''.'' # f2 @ rest"
  shows "\<not> is_coord_record l \<and> is_separator l \<and>
         step E (v, w) l = (if points v = [] then Inr (v, w) else handoff E v w)"
proof -
  have "re_search l = None"
    unfolding assms(13) using assms(1-12) by (rule re_search_short)
  then have "is_separator l" by (rule no_match_separator)
  then show ?thesis by (simp add: step_separator is_separator_def)
qed

theorem short_fraction_is_separator_witness:
  "step sample_py (\<lparr>name = ''A'', points = [[''-97.123456'', ''29.123456'']]\<rparr>, empty_world)
      (''-97.7678,29.4345'' @ [newline]) =
   Inr (\<lparr>name = ''A'', points = []\<rparr>,
        KmlOut ''A'' [''-97.123456,29.123456,0'', ''-97.123456,29.123456,0''] empty_world)"
  using short_fraction_is_separator [of "[]" "CHR ''9''" "CHR ''7''" "''7678''" "CHR ''2''"
      "CHR ''9''" "''4345''" "[newline]" "''-97.7678,29.4345'' @ [newline]" sample_py
      "\<lparr>name = ''A'', points = [[''-97.123456'', ''29.123456'']]\<rparr>" empty_world]
  by (simp add: is_digit_def newline_def handoff_def Simplified_Cons render_sample)

subsection \<open>Name records\<close>

text \<open>
  C7, as amended. On a name record the current name becomes the captured text with every
  space character replaced by one underscore; nothing else changes. \<open>Bell County\<close> gives
  \<open>Bell_County\<close>.
\<close>

theorem name_record_sets_name:
  assumes "re_search l = Some m" and "group1 m = Some cap" and "cap \<noteq> []"
  shows "is_name_record l \<and>
         step E (v, w) l =
           Inr (v\<lparr>name := map (\<lambda>c. if c = CHR '' '' then CHR ''_'' else c) cap\<rparr>, w)"
proof -
  from assms have n: "is_name_record l"
    by (simp add: is_name_record_def m_and_def truthy_def)
  from assms have "text_of (m_and (re_search l) group1) = cap"
    by (simp add: m_and_def text_of_def)
  with n show ?thesis by (simp add: step_name replace_def)
qed

theorem name_record_sets_name_witness:
  "step sample_py (\<lparr>name = [], points = []\<rparr>, empty_world) (''<name>Bell County</name>'' @ [newline]) =
   Inr (\<lparr>name = ''Bell_County'', points = []\<rparr>, empty_world)"
  using name_record_sets_name [of "''<name>Bell County</name>'' @ [newline]"
      "Match (Some ''Bell County'') None None" "''Bell County''" sample_py
      "\<lparr>name = [], points = []\<rparr>" empty_world]
  by (simp add: tag_samples [simplified])

text \<open>
  C7 as stated speaks of whitespace runs. Two spaces give two underscores, and a tab, which
  the class \<open>\s\<close> lets into the captured text, is kept.
\<close>

theorem name_whitespace_counterexample:
  "step sample_py (\<lparr>name = [], points = []\<rparr>, empty_world) ''<name>Bell  County</name>'' =
     Inr (\<lparr>name = ''Bell__County'', points = []\<rparr>, empty_world) \<and>
   join_whitespace_runs ''Bell  County'' = ''Bell_County'' \<and>
   step sample_py (\<lparr>name = [], points = []\<rparr>, empty_world) (''<name>Bell'' @ [CHR 0x09] @ ''County</name>'') =
     Inr (\<lparr>name = ''Bell'' @ [CHR 0x09] @ ''County'', points = []\<rparr>, empty_world) \<and>
   join_whitespace_runs (''Bell'' @ [CHR 0x09] @ ''County'') = ''Bell_County''"
  by code_simp

text \<open>
  C8. A name record leaves the accumulated points and the files untouched, whether or not
  points are pending; and a line after which the files or the console have changed was a
  separator read while points were pending.
\<close>

theorem name_record_keeps_points:
  "(is_name_record l \<longrightarrow>
      (\<exists>v'. step E (v, w) l = Inr (v', w) \<and> points v' = points v)) \<and>
   (\<forall>v' w'. step E (v, w) l = Inr (v', w') \<and> w' \<noteq> w \<longrightarrow> is_separator l \<and> points v \<noteq> [])"
proof (intro conjI impI allI)
  assume "is_name_record l"
  then show "\<exists>v'. step E (v, w) l = Inr (v', w) \<and> points v' = points v"
    by (simp add: step_name)
next
  fix v' w'
  assume a: "step E (v, w) l = Inr (v', w') \<and> w' \<noteq> w"
  show "is_separator l"
  proof (rule ccontr)
    assume "\<not> is_separator l"
    then consider "is_name_record l" | "is_coord_record l"
      by (auto simp: is_separator_def)
    then show False
    proof cases
      case 1
      with a show False by (auto simp: step_name)
    next
      case 2
      with a show False
        by (auto simp: step_def is_coord_record_def is_name_record_def Let_def
            split: option.splits)
    qed
  qed
  with a show "points v \<noteq> []"
    by (auto simp: step_separator)
qed

theorem name_record_keeps_points_witness:
  "step sample_py (\<lparr>name = ''A'', points = [[''-97.123456'', ''29.123456'']]\<rparr>, empty_world)
      ''<name>B</name>'' =
   Inr (\<lparr>name = ''B'', points = [[''-97.123456'', ''29.123456'']]\<rparr>, empty_world)"
proof -
  have n: "is_name_record ''<name>B</name>''"
    by (simp add: name_record_iff tag_samples)
  have "step sample_py (\<lparr>name = ''A'', points = [[''-97.123456'', ''29.123456'']]\<rparr>, empty_world)
      ''<name>B</name>'' = Inr (\<lparr>name = ''A'', points = [[''-97.123456'', ''29.123456'']]\<rparr>
          \<lparr>name := replace ''B'' CHR '' '' CHR ''_''\<rparr>, empty_world)"
    using n by (simp add: step_name tag_samples m_and_def text_of_def)
  with name_record_keeps_points [of "''<name>B</name>''" sample_py
      "\<lparr>name = ''A'', points = [[''-97.123456'', ''29.123456'']]\<rparr>" empty_world] n
  show ?thesis by (simp add: replace_def)
qed

text \<open>
  C10. When the match is a name tag whose captured text is empty (as on every line that
  holds \<open><name></name>\<close> with no \<open><\<close> and no \<open>-\<close> before it, by \<open>empty_tag_line\<close>), the line
  is not a name record and the current name stays: the line is a separator, which hands off
  the pending points when there are some and does nothing otherwise.
\<close>

theorem empty_name_tag_is_separator:
  assumes "re_search l = Some m" and "group1 m = Some []"
  shows "\<not> is_name_record l \<and> is_separator l \<and>
         step E (v, w) l = (if points v = [] then Inr (v, w) else handoff E v w) \<and>
         (\<forall>v' w'. step E (v, w) l = Inr (v', w') \<longrightarrow> name v' = name v)"
proof -
  from re_search_shape [OF assms(1)] assms(2) have "m = Match (Some []) None None"
    by auto
  with assms(1) have s: "is_separator l" by (simp add: separator_iff)
  then have st: "step E (v, w) l = (if points v = [] then Inr (v, w) else handoff E v w)"
    by (rule step_separator)
  have nm: "name v' = name v" if "step E (v, w) l = Inr (v', w')" for v' w'
  proof (cases "points v = []")
    case True
    with st that show ?thesis by simp
  next
    case False
    with st that have "handoff E v w = Inr (v', w')" by simp
    then show ?thesis by (simp add: handoff_name)
  qed
  from s have "\<not> is_name_record l" by (simp add: is_separator_def)
  with s st nm show ?thesis by blast
qed

theorem empty_name_tag_is_separator_witness:
  "step sample_py (\<lparr>name = ''A'', points = [[''-97.123456'', ''29.123456'']]\<rparr>, empty_world)
      (''<name></name>'' @ [newline]) =
   Inr (\<lparr>name = ''A'', points = []\<rparr>,
        KmlOut ''A'' [''-97.123456,29.123456,0'', ''-97.123456,29.123456,0''] empty_world) \<and>
   step sample_py (\<lparr>name = ''A'', points = []\<rparr>, empty_world) (''<name></name>'' @ [newline]) =
   Inr (\<lparr>name = ''A'', points = []\<rparr>, empty_world)"
  using empty_name_tag_is_separator [of "''<name></name>'' @ [newline]"
      "Match (Some []) None None" sample_py
      "\<lparr>name = ''A'', points = [[''-97.123456'', ''29.123456'']]\<rparr>" empty_world]
    empty_name_tag_is_separator [of "''<name></name>'' @ [newline]"
      "Match (Some []) None None" sample_py "\<lparr>name = ''A'', points = []\<rparr>" empty_world]
  by (simp add: tag_samples [simplified] handoff_def Simplified_Cons render_sample)

section \<open>The whole run\<close>

lemma main_Some: "main E (Some ls) w = run E (\<lparr>name = [], points = []\<rparr>, w) ls"
  by (simp add: main_def)

lemma run_append:
  "run E vw (ls @ ls') = (case run E vw ls of Inl e \<Rightarrow> Inl e | Inr vw' \<Rightarrow> run E vw' ls')"
  by (induction ls arbitrary: vw) (auto split: sum.splits)

lemma Simplified_agree:
  assumes "simplify_coords E' p lineWidth = simplify_coords E p lineWidth" and "str E' = str E"
  shows "Simplified E' p = Simplified E p"
proof -
  have "str_elem E' = str_elem E"
  proof
    fix x show "str_elem E' x = str_elem E x"
      using assms(2) by (cases x) simp_all
  qed
  with assms(1) show ?thesis by (simp add: Simplified_def cong: sum.case_cong)
qed

lemma step_agree:
  assumes "\<And>p. p \<noteq> [] \<Longrightarrow> simplify_coords E' p lineWidth = simplify_coords E p lineWidth"
    and "float E' = float E" and "str E' = str E"
  shows "step E' vw l = step E vw l"
proof (cases "points (fst vw) = []")
  case True
  then show ?thesis unfolding step_def Let_def assms(2) by simp
next
  case False
  then have "Simplified E' (points (fst vw)) = Simplified E (points (fst vw))"
    using assms(1,3) by (intro Simplified_agree) simp_all
  then show ?thesis unfolding step_def Let_def assms(2) by simp
qed

lemma run_agree:
  assumes "\<And>p. p \<noteq> [] \<Longrightarrow> simplify_coords E' p lineWidth = simplify_coords E p lineWidth"
    and "float E' = float E" and "str E' = str E"
  shows "run E' vw ls = run E vw ls"
  by (induction ls arbitrary: vw) (simp_all add: step_agree [OF assms] split: sum.splits)

lemma Simplified_no_IndexError:
  assumes "returns_points E" and "p \<noteq> []"
  shows "Simplified E p \<noteq> Inl IndexError"
proof -
  from assms obtain out where "simplify_coords E p lineWidth = Inr out" "out \<noteq> []"
    unfolding returns_points_def by blast
  then show ?thesis by (cases out) (simp_all add: Simplified_Cons)
qed

lemma step_no_IndexError:
  assumes "returns_points E"
  shows "step E vw l \<noteq> Inl IndexError"
proof (cases "points (fst vw) = []")
  case True
  then show ?thesis by (simp add: step_def Let_def split: option.splits)
next
  case False
  with assms have "Simplified E (points (fst vw)) \<noteq> Inl IndexError"
    by (rule Simplified_no_IndexError)
  then show ?thesis by (auto simp: step_def Let_def split: option.splits sum.splits)
qed

lemma run_no_IndexError:
  assumes "returns_points E"
  shows "run E vw ls \<noteq> Inl IndexError"
proof (induction ls arbitrary: vw)
  case Nil
  show ?case by simp
next
  case (Cons l ls)
  show ?case
  proof (cases "step E vw l")
    case (Inl e)
    with step_no_IndexError [OF assms, of vw l] show ?thesis by auto
  next
    case (Inr vw')
    with Cons show ?thesis by simp
  qed
qed

text \<open>
  C1, as amended. Nothing follows the loop: the result for a file is the result of the loop
  body on its last line. When that line is a coordinate record, the files and the console are
  those of the file without it, and the points, the new one included, stay in \<open>points\<close>: the
  last group is not handed off.
\<close>

theorem no_final_handoff:
  "main E (Some (ls @ [l])) w0 =
     (case main E (Some ls) w0 of Inl e \<Rightarrow> Inl e | Inr vw \<Rightarrow> step E vw l) \<and>
   (main E (Some ls) w0 = Inr (v, w) \<and> is_coord_record l \<and> step E (v, w) l = Inr (v', w') \<longrightarrow>
      main E (Some (ls @ [l])) w0 = Inr (v', w') \<and> w' = w \<and> name v' = name v \<and>
      (\<exists>p. points v' = points v @ [p]))"
proof (intro conjI impI)
  show a: "main E (Some (ls @ [l])) w0 =
     (case main E (Some ls) w0 of Inl e \<Rightarrow> Inl e | Inr vw \<Rightarrow> step E vw l)"
    by (simp add: main_Some run_append split: sum.splits)
  assume h: "main E (Some ls) w0 = Inr (v, w) \<and> is_coord_record l \<and> step E (v, w) l = Inr (v', w')"
  with a show "main E (Some (ls @ [l])) w0 = Inr (v', w')" by simp
  from h have "step E (v, w) l = Inr (v', w')" and "is_coord_record l" by simp_all
  then have "w' = w \<and> name v' = name v \<and> (\<exists>p. points v' = points v @ [p])"
    by (auto simp: step_def is_coord_record_def is_name_record_def Let_def split: option.splits)
  then show "w' = w" and "name v' = name v" and "\<exists>p. points v' = points v @ [p]"
    by simp_all
qed

theorem no_final_handoff_witness:
  "main sample_py (Some [''<name>B</name>'', ''-98.000000,30.000000'']) empty_world =
   Inr (\<lparr>name = ''B'', points = [[''-98.000000'', ''30.000000'']]\<rparr>, empty_world)"
proof -
  have a: "main sample_py (Some [''<name>B</name>'']) empty_world =
        Inr (\<lparr>name = ''B'', points = []\<rparr>, empty_world)"
    by code_simp
  have b: "is_coord_record ''-98.000000,30.000000''"
    by code_simp
  have c: "step sample_py (\<lparr>name = ''B'', points = []\<rparr>, empty_world) ''-98.000000,30.000000'' =
        Inr (\<lparr>name = ''B'', points = [[''-98.000000'', ''30.000000'']]\<rparr>, empty_world)"
    by code_simp
  from a b c no_final_handoff [of sample_py "[''<name>B</name>'']" "''-98.000000,30.000000''"
      empty_world "\<lparr>name = ''B'', points = []\<rparr>" empty_world
      "\<lparr>name = ''B'', points = [[''-98.000000'', ''30.000000'']]\<rparr>" empty_world]
  show ?thesis by simp
qed

text \<open>
  C1 as stated fails on the specification's own example: group \<open>A\<close> is written at the
  separator, group \<open>B\<close> is still pending when the file ends, and no file is written for it.
\<close>

theorem last_group_counterexample:
  "main sample_py
     (Some [''<name>A</name>'', ''-97.123456,29.123456'', ''-97.223456,29.223456'', ''---'',
            ''<name>B</name>'', ''-98.000000,30.000000''])
     empty_world =
   Inr (\<lparr>name = ''B'', points = [[''-98.000000'', ''30.000000'']]\<rparr>,
        KmlOut ''A'' [''-97.123456,29.123456,0'', ''-97.223456,29.223456,0'',
                      ''-97.123456,29.123456,0''] empty_world) \<and>
   map fst (files (KmlOut ''A'' [''-97.123456,29.123456,0'', ''-97.223456,29.223456,0'',
                      ''-97.123456,29.123456,0''] empty_world)) = [''A_points.kml'']"
  by code_simp

text \<open>
  C9. The script calls \<open>Simplified\<close> only under \<open>len(points)\<close>: what \<open>simplify_coords\<close>
  does on the empty list has no effect on any run, a separator read with no points pending
  changes nothing, and when the library returns a point for every non-empty input the read
  of \<open>outpoints[0]\<close> never raises.
\<close>

theorem handoff_guard:
  assumes "\<And>p. p \<noteq> [] \<Longrightarrow> simplify_coords E' p lineWidth = simplify_coords E p lineWidth"
    and "float E' = float E" and "str E' = str E"
  shows "main E' source w = main E source w \<and>
         (returns_points E \<longrightarrow> main E source w \<noteq> Inl IndexError) \<and>
         (points v = [] \<and> is_separator l \<longrightarrow> step E (v, w) l = Inr (v, w))"
proof (intro conjI impI)
  show "main E' source w = main E source w"
    by (cases source) (simp_all add: main_def run_agree [OF assms])
  show "main E source w \<noteq> Inl IndexError" if "returns_points E"
    using that by (cases source) (simp_all add: main_def run_no_IndexError)
  show "step E (v, w) l = Inr (v, w)" if "points v = [] \<and> is_separator l"
    using that by (simp add: step_separator)
qed

theorem handoff_guard_witness:
  "main (sample_py\<lparr>simplify_coords := \<lambda>p epsilon. if p = [] then Inl (LibraryError ''empty'') else Inr p\<rparr>)
      (Some [''---'', ''-97.123456,29.123456'', ''---'', ''---'']) empty_world =
   main sample_py (Some [''---'', ''-97.123456,29.123456'', ''---'', ''---'']) empty_world \<and>
   main sample_py (Some [''---'', ''-97.123456,29.123456'', ''---'', ''---'']) empty_world \<noteq> Inl IndexError"
  using handoff_guard [of "sample_py\<lparr>simplify_coords := \<lambda>p epsilon. if p = [] then Inl (LibraryError ''empty'') else Inr p\<rparr>"
      sample_py "Some [''---'', ''-97.123456,29.123456'', ''---'', ''---'']" empty_world]
  by (simp add: sample_returns_points)

end
